theory Spec2Isabelle
  imports Complex_Main
begin

section \<open>JavaScript values\<close>

text \<open>
  The frames on the wire and the fields the handlers read are JavaScript values. Numbers
  are kept as integers (the code stores timestamps and counters in them); an object is
  the list of its own properties, a key looked up from the front.
\<close>

datatype jsval =
    JUndefined
  | JNull
  | JBool bool
  | JNum int
  | JStr string
  | JArr "jsval list"
  | JObj "(string \<times> jsval) list"

datatype exn = SyntaxError | TypeError | WriteError | JsonWebTokenError

text \<open>What \<^verbatim>\<open>if (v)\<close>, \<^verbatim>\<open>!v\<close>, \<^verbatim>\<open>a || b\<close> and \<^verbatim>\<open>a && b\<close> test.\<close>

fun truthy :: "jsval \<Rightarrow> bool" where
  "truthy JUndefined = False"
| "truthy JNull = False"
| "truthy (JBool b) = b"
| "truthy (JNum n) = (n \<noteq> 0)"
| "truthy (JStr s) = (s \<noteq> [])"
| "truthy (JArr xs) = True"
| "truthy (JObj fs) = True"

definition js_or :: "jsval \<Rightarrow> jsval \<Rightarrow> jsval" where
  "js_or a b = (if truthy a then a else b)"

text \<open>
  \<^verbatim>\<open>v.k\<close> for the keys the handlers read (type, token, requestId, timestamp, payload,
  userId, sub): a property of an object, \<^verbatim>\<open>undefined\<close> on any other value that is not
  \<^verbatim>\<open>null\<close> or \<^verbatim>\<open>undefined\<close>. \<open>read_prop\<close> is the read on a value that may be
  \<^verbatim>\<open>null\<close>, where JavaScript raises a TypeError.
\<close>

fun getprop :: "jsval \<Rightarrow> string \<Rightarrow> jsval" where
  "getprop (JObj fs) k = (case map_of fs k of None \<Rightarrow> JUndefined | Some v \<Rightarrow> v)"
| "getprop v k = JUndefined"

fun read_prop :: "jsval \<Rightarrow> string \<Rightarrow> exn + jsval" where
  "read_prop JUndefined k = Inl TypeError"
| "read_prop JNull k = Inl TypeError"
| "read_prop v k = Inr (getprop v k)"

section \<open>Sockets and connection state\<close>

text \<open>
  A WebSocket of the \<^verbatim>\<open>ws\<close> library, as far as the servers use it: its ready state,
  the frames written to it so far (oldest first), whether it was terminated, and whether
  a write to it raises (\<^verbatim>\<open>JSON.stringify\<close> or \<^verbatim>\<open>ws.send\<close> throwing).
\<close>

datatype ready_state = CONNECTING | OPEN | CLOSING | CLOSED

record socket =
  readyState :: ready_state
  sendThrows :: bool
  sent :: "jsval list"
  terminated :: bool

definition ws_send :: "socket \<Rightarrow> jsval \<Rightarrow> exn + socket" where
  "ws_send w data = (if sendThrows w then Inl WriteError else Inr (w\<lparr>sent := sent w @ [data]\<rparr>))"


type_synonym clientId = string

record clientState =
  clientId :: clientId
  ws :: socket
  userId :: jsval
  authenticated :: bool
  lastHeartbeat :: int

text \<open>
  Both servers keep \<^verbatim>\<open>userConnections\<close>, a Map from user id to a Set. A Set is a list
  without repetition in insertion order; a Map is a partial function. The connection
  objects live in \<open>clients\<close>, keyed by their client id: the queued server's
  \<^verbatim>\<open>this.clients\<close> Map, and for the direct server the objects its closures and Sets
  refer to (a member of a Set there is a reference, modelled by the id of the object).
  Keys are compared by value, as the Map does for strings and numbers. \<open>tasks\<close> are
  the tasks handed on, oldest first: as \<^verbatim>\<open>createTask\<close> stores them (direct) or as
  they are published to the work queue (queued).
\<close>

record task =
  taskId :: string
  task_userId :: jsval
  task_requestData :: jsval
  status :: string

record server =
  clients :: "clientId \<rightharpoonup> clientState"
  userConnections :: "jsval \<rightharpoonup> clientId list"
  tasks :: "task list"

definition set_add :: "'a list \<Rightarrow> 'a \<Rightarrow> 'a list" where
  "set_add xs x = (if x \<in> set xs then xs else xs @ [x])"

definition set_delete :: "'a list \<Rightarrow> 'a \<Rightarrow> 'a list" where
  "set_delete xs x = removeAll x xs"

section \<open>Fan-out: sendToClient and sendToUser\<close>

text \<open>
  Direct server, \<^verbatim>\<open>sendToClient(ws, data)\<close>: writes only to an open socket, and catches
  what the write raises. The result is the returned flag and the socket afterwards.
\<close>

definition sendToClient :: "socket \<Rightarrow> jsval \<Rightarrow> bool \<times> socket" where
  "sendToClient w data =
     (if readyState w = OPEN then
        (case ws_send w data of
           Inr w' \<Rightarrow> (True, w')
         | Inl e \<Rightarrow> (False, w))
      else (False, w))"

text \<open>Queued server, \<^verbatim>\<open>_sendToClient(clientState, data)\<close>: the same on \<^verbatim>\<open>clientState.ws\<close>.\<close>

definition mq_sendToClient :: "clientState \<Rightarrow> jsval \<Rightarrow> bool \<times> clientState" where
  "mq_sendToClient st data =
     (if readyState (ws st) = OPEN then
        (case ws_send (ws st) data of
           Inr w' \<Rightarrow> (True, st\<lparr>ws := w'\<rparr>)
         | Inl e \<Rightarrow> (False, st))
      else (False, st))"

text \<open>
  The loop of the direct server's \<^verbatim>\<open>sendToUser\<close> over the Set, with the running
  \<^verbatim>\<open>successCount\<close>. A member is a connection object; the lookup follows the reference.
\<close>

fun sendToUser_loop ::
  "(clientId \<rightharpoonup> clientState) \<Rightarrow> clientId list \<Rightarrow> jsval \<Rightarrow> nat \<Rightarrow> nat \<times> (clientId \<rightharpoonup> clientState)" where
  "sendToUser_loop h [] data successCount = (successCount, h)"
| "sendToUser_loop h (c # cs) data successCount =
     (case h c of
        None \<Rightarrow> sendToUser_loop h cs data successCount
      | Some client \<Rightarrow>
          (case sendToClient (ws client) data of
             (ok, w') \<Rightarrow>
               sendToUser_loop (h(c \<mapsto> client\<lparr>ws := w'\<rparr>)) cs data
                 (if ok then successCount + 1 else successCount)))"

definition sendToUser :: "server \<Rightarrow> jsval \<Rightarrow> jsval \<Rightarrow> nat \<times> server" where
  "sendToUser s uid data =
     (case userConnections s uid of
        None \<Rightarrow> (0, s)
      | Some connections \<Rightarrow>
          if length connections = 0 then (0, s)
          else (case sendToUser_loop (clients s) connections data 0 of
                  (n, h) \<Rightarrow> (n, s\<lparr>clients := h\<rparr>)))"

text \<open>
  The queued server's \<^verbatim>\<open>_sendToUser\<close>: the Set holds client ids, and an id that
  \<^verbatim>\<open>this.clients\<close> no longer has is skipped.
\<close>

fun mq_sendToUser_loop ::
  "(clientId \<rightharpoonup> clientState) \<Rightarrow> clientId list \<Rightarrow> jsval \<Rightarrow> nat \<Rightarrow> nat \<times> (clientId \<rightharpoonup> clientState)" where
  "mq_sendToUser_loop h [] data successCount = (successCount, h)"
| "mq_sendToUser_loop h (c # cs) data successCount =
     (case h c of
        None \<Rightarrow> mq_sendToUser_loop h cs data successCount
      | Some st \<Rightarrow>
          (case mq_sendToClient st data of
             (ok, st') \<Rightarrow>
               mq_sendToUser_loop (h(c \<mapsto> st')) cs data
                 (if ok then successCount + 1 else successCount)))"

definition mq_sendToUser :: "server \<Rightarrow> jsval \<Rightarrow> jsval \<Rightarrow> nat \<times> server" where
  "mq_sendToUser s uid data =
     (case userConnections s uid of
        None \<Rightarrow> (0, s)
      | Some conns \<Rightarrow>
          if length conns = 0 then (0, s)
          else (case mq_sendToUser_loop (clients s) conns data 0 of
                  (n, h) \<Rightarrow> (n, s\<lparr>clients := h\<rparr>)))"

text \<open>A connection accepts a write when its object is there, its socket is open and the
  write does not raise.\<close>

definition accepts :: "(clientId \<rightharpoonup> clientState) \<Rightarrow> clientId \<Rightarrow> bool" where
  "accepts h c =
     (case h c of
        None \<Rightarrow> False
      | Some st \<Rightarrow> readyState (ws st) = OPEN \<and> \<not> sendThrows (ws st))"

text \<open>The frames written to a connection's socket (none when the object is gone).\<close>

definition frames_of :: "(clientId \<rightharpoonup> clientState) \<Rightarrow> clientId \<Rightarrow> jsval list" where
  "frames_of h c = (case h c of None \<Rightarrow> [] | Some st \<Rightarrow> sent (ws st))"

section \<open>The direct server: authentication, requests, frames\<close>

text \<open>
  What the handlers get from outside: the clock (\<^verbatim>\<open>Date.now()\<close>), the next identifier of
  \<^verbatim>\<open>uuidv4()\<close>, the library's \<^verbatim>\<open>jwt.verify\<close> (which raises on a bad token), and for
  the queued server the state of the broker connection and whether publishing a task
  is rejected.
\<close>

record env =
  now :: int
  uuid :: string
  jwt_verify :: "jsval \<Rightarrow> exn + jsval"
  mq_connected :: bool
  mq_sendTask_rejects :: bool

text \<open>\<^verbatim>\<open>verifyToken\<close> of both variants: the decoded payload, \<^verbatim>\<open>null\<close> when verification raises.\<close>

definition verifyToken :: "env \<Rightarrow> jsval \<Rightarrow> jsval" where
  "verifyToken e token = (case jwt_verify e token of Inl x \<Rightarrow> JNull | Inr decoded \<Rightarrow> decoded)"

text \<open>
  The frames the servers build. The direct server's message texts are Chinese in the
  source and are given here in English; no handler reads them.
\<close>

definition auth_failure :: "string \<Rightarrow> jsval" where
  "auth_failure m = JObj [(''type'', JStr ''auth_failure''), (''message'', JStr m)]"

definition auth_success :: "jsval \<Rightarrow> jsval" where
  "auth_success uid = JObj [(''type'', JStr ''auth_success''), (''userId'', uid)]"

definition error_frame :: "string \<Rightarrow> jsval" where
  "error_frame m = JObj [(''type'', JStr ''error''), (''message'', JStr m)]"

definition request_error :: "jsval \<Rightarrow> string \<Rightarrow> jsval" where
  "request_error rid m = JObj [(''type'', JStr ''error''), (''requestId'', rid), (''message'', JStr m)]"

definition request_accepted :: "jsval \<Rightarrow> string \<Rightarrow> string \<Rightarrow> jsval" where
  "request_accepted rid tid m =
     JObj [(''type'', JStr ''request_accepted''), (''requestId'', rid), (''taskId'', JStr tid),
           (''message'', JStr m)]"

definition welcome_frame :: "string \<Rightarrow> string \<Rightarrow> jsval" where
  "welcome_frame m cid = JObj [(''type'', JStr ''welcome''), (''message'', JStr m), (''clientId'', JStr cid)]"


definition pong_frame :: "int \<Rightarrow> jsval \<Rightarrow> jsval" where
  "pong_frame t echo = JObj [(''type'', JStr ''pong''), (''timestamp'', JNum t), (''echo'', echo)]"

text \<open>A handler's reply: the connection state with the frame written to its socket, if
  the socket took it.\<close>

definition reply :: "clientState \<Rightarrow> jsval \<Rightarrow> clientState" where
  "reply st data = st\<lparr>ws := snd (sendToClient (ws st) data)\<rparr>"

text \<open>
  \<^verbatim>\<open>handleAuth(clientState, message)\<close> of the direct server. It changes the connection
  object and the global \<^verbatim>\<open>userConnections\<close>; both are returned.
\<close>

definition handleAuth ::
  "env \<Rightarrow> clientState \<Rightarrow> (jsval \<rightharpoonup> clientId list) \<Rightarrow> jsval
     \<Rightarrow> clientState \<times> (jsval \<rightharpoonup> clientId list)" where
  "handleAuth e st uc message =
     (let token = getprop message ''token'' in
      if \<not> truthy token then (reply st (auth_failure ''no authentication token provided''), uc)
      else
        let decoded = verifyToken e token in
        if \<not> truthy decoded then (reply st (auth_failure ''invalid authentication token''), uc)
        else
          let uid = getprop decoded ''userId'';
              st1 = st\<lparr>userId := uid, authenticated := True\<rparr>;
              uc1 = (if uc uid = None then uc(uid \<mapsto> []) else uc);
              uc2 = (case uc1 uid of
                       None \<Rightarrow> uc1
                     | Some bucket \<Rightarrow> uc1(uid \<mapsto> set_add bucket (clientId st1)))
          in (reply st1 (auth_success uid), uc2))"

text \<open>
  \<^verbatim>\<open>handleDataRequest(clientState, message)\<close> of the direct server, up to the return of
  \<^verbatim>\<open>processTask\<close>: the task is created and set to processing; its batches are sent
  later, from the timers of the task processor. The data file is taken to exist.
\<close>

definition handleDataRequest ::
  "env \<Rightarrow> clientState \<Rightarrow> task list \<Rightarrow> jsval \<Rightarrow> clientState \<times> task list" where
  "handleDataRequest e st ts message =
     (if \<not> authenticated st then
        (reply st (request_error (getprop message ''requestId'') ''authentication required''), ts)
      else
        let t = \<lparr>taskId = uuid e, task_userId = userId st, task_requestData = message,
                 status = ''pending''\<rparr>
        in (reply st (request_accepted (getprop message ''requestId'') (taskId t)
                        ''request accepted, processing''),
            ts @ [t\<lparr>status := ''processing''\<rparr>]))"

text \<open>
  The body of the \<^verbatim>\<open>try\<close> in \<^verbatim>\<open>ws.on('message')\<close>: \<open>Inl\<close> is what it raises (a frame
  that is not JSON, or the read of \<^verbatim>\<open>.type\<close> on \<^verbatim>\<open>null\<close>) with the state reached by
  then. A frame is given by what \<^verbatim>\<open>JSON.parse\<close> makes of it: \<open>None\<close> when it raises.
\<close>

type_synonym conn = "clientState \<times> (jsval \<rightharpoonup> clientId list) \<times> task list"

definition message_body :: "env \<Rightarrow> conn \<Rightarrow> jsval option \<Rightarrow> (exn \<times> conn) + conn" where
  "message_body e k frame =
     (case k of (st, uc, ts) \<Rightarrow>
        (case frame of
           None \<Rightarrow> Inl (SyntaxError, (st, uc, ts))
         | Some message \<Rightarrow>
             let st1 = st\<lparr>lastHeartbeat := now e\<rparr> in
             (case read_prop message ''type'' of
                Inl x \<Rightarrow> Inl (x, (st1, uc, ts))
              | Inr ty \<Rightarrow>
                  if ty = JStr ''auth'' then
                    (case handleAuth e st1 uc message of (st2, uc2) \<Rightarrow> Inr (st2, uc2, ts))
                  else if ty = JStr ''pong'' then Inr (st1, uc, ts)
                  else if ty = JStr ''request_data'' then
                    (case handleDataRequest e st1 ts message of (st2, ts2) \<Rightarrow> Inr (st2, uc, ts2))
                  else Inr (reply st1 (error_frame ''unknown message type''), uc, ts))))"

definition on_message :: "env \<Rightarrow> conn \<Rightarrow> jsval option \<Rightarrow> conn" where
  "on_message e k frame =
     (case message_body e k frame of
        Inr k' \<Rightarrow> k'
      | Inl (x, (st, uc, ts)) \<Rightarrow> (reply st (error_frame ''malformed message''), uc, ts))"

text \<open>\<^verbatim>\<open>ws.on('close')\<close> of the direct server, on the object of the closed connection.\<close>

definition on_close :: "clientState \<Rightarrow> (jsval \<rightharpoonup> clientId list) \<Rightarrow> jsval \<rightharpoonup> clientId list" where
  "on_close st uc =
     (if truthy (userId st) then
        (case uc (userId st) of
           None \<Rightarrow> uc
         | Some connections \<Rightarrow>
             let connections' = set_delete connections (clientId st) in
             if length connections' = 0 then uc(userId st := None)
             else uc(userId st \<mapsto> connections'))
      else uc)"



text \<open>
  The events of the direct server on the connection with a given client id: the lookup
  is the closure's reference to its \<^verbatim>\<open>clientState\<close>. A new connection gets the next
  identifier and the welcome frame; a closed one keeps its object (the Sets may still
  refer to it) with a closed socket.
\<close>

definition on_connection :: "env \<Rightarrow> server \<Rightarrow> socket \<Rightarrow> server" where
  "on_connection e s w =
     (let st = \<lparr>clientId = uuid e, ws = w, userId = JNull, authenticated = False,
                 lastHeartbeat = now e\<rparr>
      in s\<lparr>clients := (clients s)(uuid e \<mapsto> reply st (welcome_frame ''welcome'' (uuid e)))\<rparr>)"

definition ws_message :: "env \<Rightarrow> server \<Rightarrow> clientId \<Rightarrow> jsval option \<Rightarrow> server" where
  "ws_message e s cid frame =
     (case clients s cid of
        None \<Rightarrow> s
      | Some st \<Rightarrow>
          (case on_message e (st, userConnections s, tasks s) frame of
             (st', uc', ts') \<Rightarrow>
               s\<lparr>clients := (clients s)(cid \<mapsto> st'), userConnections := uc', tasks := ts'\<rparr>))"

definition ws_close :: "server \<Rightarrow> clientId \<Rightarrow> server" where
  "ws_close s cid =
     (case clients s cid of
        None \<Rightarrow> s
      | Some st \<Rightarrow>
          s\<lparr>clients := (clients s)(cid \<mapsto> st\<lparr>ws := (ws st)\<lparr>readyState := CLOSED\<rparr>\<rparr>),
            userConnections := on_close st (userConnections s)\<rparr>)"

section \<open>The queued server\<close>

text \<open>\<^verbatim>\<open>_handleAuth(message, clientState)\<close>: the user id is \<^verbatim>\<open>decoded.userId || decoded.sub\<close>,
  and a payload without one is refused.\<close>

definition mq_reply :: "clientState \<Rightarrow> jsval \<Rightarrow> clientState" where
  "mq_reply st data = snd (mq_sendToClient st data)"

definition mq_handleAuth ::
  "env \<Rightarrow> clientState \<Rightarrow> (jsval \<rightharpoonup> clientId list) \<Rightarrow> jsval
     \<Rightarrow> clientState \<times> (jsval \<rightharpoonup> clientId list)" where
  "mq_handleAuth e st uc message =
     (let token = getprop message ''token'' in
      if \<not> truthy token then (mq_reply st (auth_failure ''No authentication token provided''), uc)
      else
        let decoded = verifyToken e token in
        if \<not> truthy decoded then (mq_reply st (auth_failure ''Invalid authentication token''), uc)
        else
          let uid = js_or (getprop decoded ''userId'') (getprop decoded ''sub'') in
          if \<not> truthy uid then (mq_reply st (auth_failure ''Invalid token: no user ID''), uc)
          else
            let st1 = st\<lparr>userId := uid, authenticated := True\<rparr>;
                uc1 = (if uc uid = None then uc(uid \<mapsto> []) else uc);
                uc2 = (case uc1 uid of
                         None \<Rightarrow> uc1
                       | Some bucket \<Rightarrow> uc1(uid \<mapsto> set_add bucket (clientId st1)))
            in (mq_reply st1 (auth_success uid), uc2))"

definition mq_handlePing :: "env \<Rightarrow> clientState \<Rightarrow> jsval \<Rightarrow> clientState" where
  "mq_handlePing e st message = mq_reply st (pong_frame (now e) (getprop message ''timestamp''))"

text \<open>
  \<^verbatim>\<open>_handleDataRequest\<close>: the task is published when the broker is connected. The
  promise of \<^verbatim>\<open>sendTask\<close> settles later; its two continuations are run here at once.
  The published task carries a timestamp where the direct server's has a status; it is
  kept here with the status pending.
\<close>

definition mq_handleDataRequest ::
  "env \<Rightarrow> clientState \<Rightarrow> task list \<Rightarrow> jsval \<Rightarrow> clientState \<times> task list" where
  "mq_handleDataRequest e st ts message =
     (if mq_connected e then
        let t = \<lparr>taskId = uuid e, task_userId = userId st, task_requestData = message,
                 status = ''pending''\<rparr>
        in if mq_sendTask_rejects e then
             (mq_reply st (request_error (getprop message ''requestId'')
                             ''Server error: Failed to process request''), ts)
           else
             (mq_reply st (request_accepted (getprop message ''requestId'') (taskId t)
                             ''Request accepted, processing...''), ts @ [t])
      else
        (mq_reply st (request_error (getprop message ''requestId'')
                        ''Server error: Message queue not connected''), ts))"

text \<open>
  \<^verbatim>\<open>_handleMessage(message, clientState)\<close>. Only \<^verbatim>\<open>JSON.parse\<close> is inside a \<^verbatim>\<open>try\<close>:
  the read of \<^verbatim>\<open>.type\<close> on \<^verbatim>\<open>null\<close> leaves the handler as an exception (the second
  component), after the heartbeat time was set.
\<close>

definition mq_handleMessage :: "env \<Rightarrow> conn \<Rightarrow> jsval option \<Rightarrow> conn \<times> exn option" where
  "mq_handleMessage e k frame =
     (case k of (st, uc, ts) \<Rightarrow>
        (case frame of
           None \<Rightarrow> ((mq_reply st (error_frame ''Invalid JSON message''), uc, ts), None)
         | Some parsedMessage \<Rightarrow>
             let st1 = st\<lparr>lastHeartbeat := now e\<rparr> in
             (case read_prop parsedMessage ''type'' of
                Inl x \<Rightarrow> ((st1, uc, ts), Some x)
              | Inr ty \<Rightarrow>
                  if ty = JStr ''auth'' then
                    (case mq_handleAuth e st1 uc parsedMessage of
                       (st2, uc2) \<Rightarrow> ((st2, uc2, ts), None))
                  else if ty = JStr ''ping'' then
                    ((mq_handlePing e st1 parsedMessage, uc, ts), None)
                  else if ty = JStr ''request_data'' then
                    (if \<not> authenticated st1 then
                       ((mq_reply st1 (error_frame ''Authentication required''), uc, ts), None)
                     else
                       (case mq_handleDataRequest e st1 ts parsedMessage of
                          (st2, ts2) \<Rightarrow> ((st2, uc, ts2), None)))
                  else ((st1, uc, ts), None))))"

text \<open>The events of the queued server. A closed connection leaves \<^verbatim>\<open>this.clients\<close>.\<close>

definition mq_on_connection :: "env \<Rightarrow> server \<Rightarrow> socket \<Rightarrow> server" where
  "mq_on_connection e s w =
     (let st = \<lparr>clientId = uuid e, ws = w, userId = JNull, authenticated = False,
                 lastHeartbeat = now e\<rparr>
      in s\<lparr>clients := (clients s)(uuid e \<mapsto>
             mq_reply st (welcome_frame ''Welcome to the WebSocket server'' (uuid e)))\<rparr>)"

definition mq_ws_message :: "env \<Rightarrow> server \<Rightarrow> clientId \<Rightarrow> jsval option \<Rightarrow> server \<times> exn option" where
  "mq_ws_message e s cid frame =
     (case clients s cid of
        None \<Rightarrow> (s, None)
      | Some st \<Rightarrow>
          (case mq_handleMessage e (st, userConnections s, tasks s) frame of
             ((st', uc', ts'), x) \<Rightarrow>
               (s\<lparr>clients := (clients s)(cid \<mapsto> st'), userConnections := uc', tasks := ts'\<rparr>, x)))"

definition mq_ws_close :: "server \<Rightarrow> clientId \<Rightarrow> server" where
  "mq_ws_close s cid =
     (case clients s cid of
        None \<Rightarrow> s
      | Some st \<Rightarrow>
          s\<lparr>clients := (clients s)(cid := None),
            userConnections := on_close st (userConnections s)\<rparr>)"




section \<open>The client: WSClient\<close>

text \<open>
  A callback is code of the caller. The model keeps of a call that it was made, with
  which argument, and whether it returned or raised; the callback itself is taken not
  to touch the client. A callback that was not given is \<open>None\<close>.
\<close>

datatype outcome = Returns | Throws

type_synonym callback = "jsval \<Rightarrow> outcome"

record request_entry =
  onAccepted :: "callback option"
  onData :: "callback option"
  onError :: "callback option"
  once :: bool

record options =
  reconnectInterval :: rat
  heartbeatInterval :: rat
  authToken :: jsval
  onMessage :: callback
  onReconnect :: callback
  onConnect :: callback
  onDisconnect :: callback
  onAuthSuccess :: callback
  onAuthFailure :: callback

record wsclient =
  options :: options
  c_socket :: "socket option"
  reconnectAttempts :: nat
  c_heartbeatTimer :: bool
  c_authenticated :: bool
  isConnecting :: bool
  c_userId :: jsval
  requestCallbacks :: "jsval \<rightharpoonup> request_entry"
  calls :: "(string \<times> jsval) list"

text \<open>The options object of the constructor: a number that is missing or 0 gets its
  default, a missing callback does nothing.\<close>

record given_options =
  g_reconnectInterval :: "rat option"
  g_heartbeatInterval :: "rat option"
  g_authToken :: jsval
  g_onMessage :: "callback option"
  g_onReconnect :: "callback option"
  g_onConnect :: "callback option"
  g_onDisconnect :: "callback option"
  g_onAuthSuccess :: "callback option"
  g_onAuthFailure :: "callback option"
  g_autoConnect :: bool

definition number_or :: "rat option \<Rightarrow> rat \<Rightarrow> rat" where
  "number_or g d = (case g of None \<Rightarrow> d | Some r \<Rightarrow> if r = 0 then d else r)"

definition callback_or_noop :: "callback option \<Rightarrow> callback" where
  "callback_or_noop g = (case g of None \<Rightarrow> (\<lambda>x. Returns) | Some f \<Rightarrow> f)"

text \<open>\<^verbatim>\<open>connect()\<close>; \<open>w\<close> is the socket \<^verbatim>\<open>new WebSocket(url)\<close> makes.\<close>

definition connect :: "socket \<Rightarrow> wsclient \<Rightarrow> wsclient" where
  "connect w c =
     (if (case c_socket c of
            None \<Rightarrow> False
          | Some s \<Rightarrow> readyState s = OPEN \<or> readyState s = CONNECTING) then c
      else if isConnecting c then c
      else c\<lparr>isConnecting := True, c_socket := Some w\<rparr>)"

definition WSClient :: "socket \<Rightarrow> given_options \<Rightarrow> wsclient" where
  "WSClient w g =
     (let c = \<lparr>options =
                 \<lparr>reconnectInterval = number_or (g_reconnectInterval g) 3000,
                  heartbeatInterval = number_or (g_heartbeatInterval g) 30000,
                  authToken = js_or (g_authToken g) JNull,
                  onMessage = callback_or_noop (g_onMessage g),
                  onReconnect = callback_or_noop (g_onReconnect g),
                  onConnect = callback_or_noop (g_onConnect g),
                  onDisconnect = callback_or_noop (g_onDisconnect g),
                  onAuthSuccess = callback_or_noop (g_onAuthSuccess g),
                  onAuthFailure = callback_or_noop (g_onAuthFailure g)\<rparr>,
               c_socket = None, reconnectAttempts = 0, c_heartbeatTimer = False,
               c_authenticated = False, isConnecting = False, c_userId = JNull,
               requestCallbacks = Map.empty, calls = []\<rparr>
      in if g_autoConnect g then connect w c else c)"

text \<open>\<^verbatim>\<open>send(data)\<close>: the flag it returns and the client afterwards.\<close>

definition send :: "jsval \<Rightarrow> wsclient \<Rightarrow> bool \<times> wsclient" where
  "send data c =
     (case c_socket c of
        None \<Rightarrow> (False, c)
      | Some s \<Rightarrow>
          if readyState s \<noteq> OPEN then (False, c)
          else (case ws_send s data of
                  Inl x \<Rightarrow> (False, c)
                | Inr s' \<Rightarrow> (True, c\<lparr>c_socket := Some s'\<rparr>)))"

definition authenticate :: "jsval \<Rightarrow> wsclient \<Rightarrow> bool \<times> wsclient" where
  "authenticate token c =
     send (JObj [(''type'', JStr ''auth''), (''token'', token)])
          (c\<lparr>options := (options c)\<lparr>authToken := token\<rparr>\<rparr>)"

text \<open>A call of a callback: recorded in \<open>calls\<close>, with what became of it.\<close>

definition invoke :: "string \<Rightarrow> callback \<Rightarrow> jsval \<Rightarrow> wsclient \<Rightarrow> wsclient \<times> outcome" where
  "invoke name f arg c = (c\<lparr>calls := calls c @ [(name, arg)]\<rparr>, f arg)"

text \<open>\<^verbatim>\<open>requestData(requestId, params, callbacks)\<close>. The entry stored has the three
  callbacks as given and \<^verbatim>\<open>once: callbacks.once !== false\<close>; \<open>callbacks\<close> is that entry.\<close>

definition requestData ::
  "jsval \<Rightarrow> jsval \<Rightarrow> request_entry \<Rightarrow> wsclient \<Rightarrow> bool \<times> wsclient" where
  "requestData requestId params callbacks c =
     (if \<not> c_authenticated c then
        (case onError callbacks of
           None \<Rightarrow> (False, c)
         | Some f \<Rightarrow> (False, fst (invoke ''onError'' f (JObj [(''message'', JStr ''not authenticated'')]) c)))
      else
        send (JObj [(''type'', JStr ''request_data''), (''requestId'', requestId),
                    (''dataType'', js_or (getprop params ''dataType'') (JStr ''default'')),
                    (''options'', js_or (getprop params ''options'') (JObj []))])
             (c\<lparr>requestCallbacks := (requestCallbacks c)(requestId \<mapsto> callbacks)\<rparr>))"

text \<open>
  The \<^verbatim>\<open>switch\<close> of \<^verbatim>\<open>_handleMessage\<close> on a parsed frame, inside the \<^verbatim>\<open>try\<close>: the
  client reached and whether the \<^verbatim>\<open>switch\<close> ran to its end or raised.
\<close>

definition handle_accepted :: "wsclient \<Rightarrow> jsval \<Rightarrow> wsclient \<times> outcome" where
  "handle_accepted c data =
     (let rid = getprop data ''requestId'' in
      if truthy rid \<and> requestCallbacks c rid \<noteq> None then
        (case requestCallbacks c rid of
           None \<Rightarrow> (c, Returns)
         | Some callback \<Rightarrow>
             (case onAccepted callback of
                None \<Rightarrow> (c, Returns)
              | Some f \<Rightarrow> invoke ''onAccepted'' f data c))
      else (c, Returns))"

definition handle_data :: "wsclient \<Rightarrow> jsval \<Rightarrow> wsclient \<times> outcome" where
  "handle_data c data =
     (let payload = getprop data ''payload''; rid = getprop payload ''requestId'' in
      if truthy payload \<and> truthy rid \<and> requestCallbacks c rid \<noteq> None then
        (case requestCallbacks c rid of
           None \<Rightarrow> (c, Returns)
         | Some callback \<Rightarrow>
             (case onData callback of
                None \<Rightarrow> (c, Returns)
              | Some f \<Rightarrow>
                  (case invoke ''onData'' f payload c of
                     (c1, Throws) \<Rightarrow> (c1, Throws)
                   | (c1, Returns) \<Rightarrow>
                       if once callback then
                         (c1\<lparr>requestCallbacks := (requestCallbacks c1)(rid := None)\<rparr>, Returns)
                       else (c1, Returns))))
      else (c, Returns))"

definition handle_error :: "wsclient \<Rightarrow> jsval \<Rightarrow> wsclient \<times> outcome" where
  "handle_error c data =
     (let rid = getprop data ''requestId'' in
      if truthy rid \<and> requestCallbacks c rid \<noteq> None then
        (case requestCallbacks c rid of
           None \<Rightarrow> (c, Returns)
         | Some callback \<Rightarrow>
             (case onError callback of
                None \<Rightarrow> (c, Returns)
              | Some f \<Rightarrow>
                  (case invoke ''onError'' f data c of
                     (c1, Throws) \<Rightarrow> (c1, Throws)
                   | (c1, Returns) \<Rightarrow>
                       if once callback then
                         (c1\<lparr>requestCallbacks := (requestCallbacks c1)(rid := None)\<rparr>, Returns)
                       else (c1, Returns))))
      else (c, Returns))"

definition dispatch :: "int \<Rightarrow> wsclient \<Rightarrow> jsval \<Rightarrow> wsclient \<times> outcome" where
  "dispatch t c data =
     (case read_prop data ''type'' of
        Inl x \<Rightarrow> (c, Throws)
      | Inr ty \<Rightarrow>
          if ty = JStr ''auth_success'' then
            invoke ''onAuthSuccess'' (onAuthSuccess (options c)) data
              (c\<lparr>c_authenticated := True, c_userId := getprop data ''userId''\<rparr>)
          else if ty = JStr ''auth_failure'' then
            invoke ''onAuthFailure'' (onAuthFailure (options c)) data (c\<lparr>c_authenticated := False\<rparr>)
          else if ty = JStr ''ping'' then
            (snd (send (pong_frame t (getprop data ''timestamp'')) c), Returns)
          else if ty = JStr ''request_accepted'' then handle_accepted c data
          else if ty = JStr ''data'' then handle_data c data
          else if ty = JStr ''error'' then handle_error c data
          else (c, Returns))"

text \<open>\<^verbatim>\<open>_handleMessage(event)\<close>: a frame that is not JSON, and anything a callback
  raises, ends in the \<^verbatim>\<open>catch\<close>, which only logs.\<close>

definition handleMessage :: "int \<Rightarrow> wsclient \<Rightarrow> jsval option \<Rightarrow> wsclient" where
  "handleMessage t c frame =
     (case frame of
        None \<Rightarrow> c
      | Some data \<Rightarrow>
          (case dispatch t c data of
             (c1, Throws) \<Rightarrow> c1
           | (c1, Returns) \<Rightarrow> fst (invoke ''onMessage'' (onMessage (options c1)) data c1)))"

text \<open>\<^verbatim>\<open>_handleOpen()\<close>: the attempt counter starts again at 0.\<close>

definition handleOpen :: "wsclient \<Rightarrow> wsclient" where
  "handleOpen c =
     (let c1 = c\<lparr>isConnecting := False, reconnectAttempts := 0\<rparr>;
          c2 = (if truthy (authToken (options c1)) then snd (authenticate (authToken (options c1)) c1)
                else c1);
          c3 = c2\<lparr>c_heartbeatTimer := True\<rparr>
      in fst (invoke ''onConnect'' (onConnect (options c3)) JUndefined c3))"

text \<open>
  \<^verbatim>\<open>_reconnect()\<close>: the delay of the timer it sets, and the timer's callback. The delay
  is \<^verbatim>\<open>Math.min(30000, reconnectInterval * Math.pow(1.5, reconnectAttempts))\<close>, computed
  here in the rationals. For the default interval 3000 the floating-point result is
  the same number: below the bound the products are multiples of 1/32 under 30000 and
  exact, and from the sixth attempt on the product is far above 30000 (or infinite).
\<close>

definition reconnect_delay :: "wsclient \<Rightarrow> rat" where
  "reconnect_delay c = min 30000 (reconnectInterval (options c) * (3 / 2) ^ reconnectAttempts c)"

definition reconnect_timer :: "socket \<Rightarrow> wsclient \<Rightarrow> wsclient" where
  "reconnect_timer w c =
     (let c1 = c\<lparr>reconnectAttempts := reconnectAttempts c + 1\<rparr> in
      case invoke ''onReconnect'' (onReconnect (options c1)) (JNum (int (reconnectAttempts c1))) c1 of
        (c2, Throws) \<Rightarrow> c2
      | (c2, Returns) \<Rightarrow> connect w c2)"

text \<open>\<^verbatim>\<open>_handleClose(event)\<close>, with the delay of the reconnect timer it sets (none when
  the disconnect callback raised).\<close>

definition handleClose :: "wsclient \<Rightarrow> wsclient \<times> rat option" where
  "handleClose c =
     (case invoke ''onDisconnect'' (onDisconnect (options c)) JUndefined
             (c\<lparr>c_authenticated := False, isConnecting := False, c_heartbeatTimer := False\<rparr>) of
        (c1, Throws) \<Rightarrow> (c1, None)
      | (c1, Returns) \<Rightarrow> (c1, Some (reconnect_delay c1)))"

section \<open>The test client: TestWSClient\<close>






section \<open>The task processors\<close>











section \<open>Example states\<close>

text \<open>A user \<open>1\<close> with two open connections: the write to \<open>A\<close> raises, the write to
  \<open>B\<close> goes through.\<close>

definition ex_socket :: "bool \<Rightarrow> socket" where
  "ex_socket throws = \<lparr>readyState = OPEN, sendThrows = throws, sent = [], terminated = False\<rparr>"

definition ex_client :: "clientId \<Rightarrow> bool \<Rightarrow> clientState" where
  "ex_client cid throws =
     \<lparr>clientId = cid, ws = ex_socket throws, userId = JStr ''1'', authenticated = True,
      lastHeartbeat = 0\<rparr>"

definition ex_server :: server where
  "ex_server =
     \<lparr>clients = [''A'' \<mapsto> ex_client ''A'' True, ''B'' \<mapsto> ex_client ''B'' False],
      userConnections = [JStr ''1'' \<mapsto> [''A'', ''B'']],
      tasks = []\<rparr>"

text \<open>
  A verifier that accepts the tokens of the users \<open>1\<close> and \<open>2\<close> and a third token whose
  payload names no user, and a server with no connection yet. In \<open>reauth\<close> a connection \<open>c\<close> is accepted and then authenticates
  twice on the same socket, first with the token of user \<open>1\<close>, then with that of user
  \<open>2\<close> (what the page does when a second user logs in while the socket is open).
\<close>

definition ex_verify :: "jsval \<Rightarrow> exn + jsval" where
  "ex_verify token =
     (if token = JStr ''t1'' then Inr (JObj [(''userId'', JStr ''1'')])
      else if token = JStr ''t2'' then Inr (JObj [(''userId'', JStr ''2'')])
      else if token = JStr ''t3'' then Inr (JObj [(''name'', JStr ''user3''), (''iat'', JNum 1)])
      else Inl JsonWebTokenError)"

definition ex_env :: env where
  "ex_env = \<lparr>now = 1000, uuid = ''c'', jwt_verify = ex_verify, mq_connected = True,
             mq_sendTask_rejects = False\<rparr>"

definition empty_server :: server where
  "empty_server = \<lparr>clients = Map.empty, userConnections = Map.empty, tasks = []\<rparr>"

definition auth_frame :: "string \<Rightarrow> jsval option" where
  "auth_frame tok = Some (JObj [(''type'', JStr ''auth''), (''token'', JStr tok)])"

definition reauth :: server where
  "reauth =
     ws_message ex_env
       (ws_message ex_env (on_connection ex_env empty_server (ex_socket False)) ''c''
          (auth_frame ''t1''))
       ''c'' (auth_frame ''t2'')"

definition mq_reauth :: server where
  "mq_reauth =
     fst (mq_ws_message ex_env
       (fst (mq_ws_message ex_env (mq_on_connection ex_env empty_server (ex_socket False)) ''c''
          (auth_frame ''t1'')))
       ''c'' (auth_frame ''t2''))"

text \<open>Whether a connection id is in the bucket of a user.\<close>

definition in_bucket :: "server \<Rightarrow> jsval \<Rightarrow> clientId \<Rightarrow> bool" where
  "in_bucket s u c = (case userConnections s u of None \<Rightarrow> False | Some b \<Rightarrow> c \<in> set b)"

text \<open>
  A client made with no options, opened, authenticated as user \<open>1\<close>, that has sent the
  request \<open>req-1\<close> with the callbacks \<open>ent\<close>; a data frame and an error frame for that
  request; a callback that returns and one that raises.
\<close>

definition ex_given :: given_options where
  "ex_given =
     \<lparr>g_reconnectInterval = None, g_heartbeatInterval = None, g_authToken = JUndefined,
      g_onMessage = None, g_onReconnect = None, g_onConnect = None, g_onDisconnect = None,
      g_onAuthSuccess = None, g_onAuthFailure = None, g_autoConnect = True\<rparr>"

definition ex_wsclient :: "request_entry \<Rightarrow> wsclient" where
  "ex_wsclient ent =
     snd (requestData (JStr ''req-1'') (JObj []) ent
            (handleMessage 0 (handleOpen (WSClient (ex_socket False) ex_given))
               (Some (auth_success (JStr ''1'')))))"

definition ex_payload :: jsval where
  "ex_payload = JObj [(''requestId'', JStr ''req-1''), (''data'', JObj [(''isFinal'', JBool True)])]"

definition ex_data :: jsval where
  "ex_data = JObj [(''type'', JStr ''data''), (''payload'', ex_payload)]"

definition ex_error :: jsval where
  "ex_error = request_error (JStr ''req-1'') ''Server error: Failed to process request''"

definition returning :: callback where
  "returning = (\<lambda>x. Returns)"



text \<open>A fresh connection at time 0 with an open socket, and the clock at a given time.\<close>

definition ex_fresh :: clientState where
  "ex_fresh = \<lparr>clientId = ''c'', ws = ex_socket False, userId = JNull, authenticated = False,
               lastHeartbeat = 0\<rparr>"

definition at_time :: "int \<Rightarrow> env" where
  "at_time t = ex_env\<lparr>now := t\<rparr>"





section \<open>Verification: fan-out\<close>

lemma sendToClient_flags:
  "readyState (snd (sendToClient w d)) = readyState w \<and>
   sendThrows (snd (sendToClient w d)) = sendThrows w \<and>
   terminated (snd (sendToClient w d)) = terminated w"
  by (simp add: sendToClient_def ws_send_def)

lemma sendToClient_ok:
  "fst (sendToClient w d) = (readyState w = OPEN \<and> \<not> sendThrows w)"
  by (simp add: sendToClient_def ws_send_def)

lemma sendToClient_sent:
  "sent (snd (sendToClient w d)) =
     (if readyState w = OPEN \<and> \<not> sendThrows w then sent w @ [d] else sent w)"
  by (simp add: sendToClient_def ws_send_def)

lemma mq_sendToClient_eq:
  "mq_sendToClient st d = (fst (sendToClient (ws st) d), st\<lparr>ws := snd (sendToClient (ws st) d)\<rparr>)"
  by (simp add: mq_sendToClient_def sendToClient_def ws_send_def)

lemma mq_loop_eq: "mq_sendToUser_loop h cs d n = sendToUser_loop h cs d n"
  by (induction cs arbitrary: h n) (simp_all add: mq_sendToClient_eq split: option.splits prod.splits)

lemma mq_sendToUser_eq: "mq_sendToUser s u d = sendToUser s u d"
  by (simp add: mq_sendToUser_def sendToUser_def mq_loop_eq split: option.split)

lemma accepts_upd:
  "h c = Some st \<Longrightarrow>
   accepts (h(c \<mapsto> st\<lparr>ws := snd (sendToClient (ws st) d)\<rparr>)) = accepts h"
  by (rule ext) (simp add: accepts_def sendToClient_flags)

lemma loop_count:
  "fst (sendToUser_loop h cs d n) = n + length (filter (accepts h) cs)"
proof (induction cs arbitrary: h n)
  case Nil
  then show ?case by simp
next
  case (Cons c cs)
  show ?case
  proof (cases "h c")
    case None
    then show ?thesis using Cons.IH [of h n] by (simp add: accepts_def)
  next
    case (Some st)
    obtain ok w' where sc: "sendToClient (ws st) d = (ok, w')" by (cases "sendToClient (ws st) d")
    have ok: "ok = accepts h c"
      using sc sendToClient_ok [of "ws st" d] Some by (simp add: accepts_def)
    have w': "w' = snd (sendToClient (ws st) d)" using sc by simp
    have acc: "accepts (h(c \<mapsto> st\<lparr>ws := w'\<rparr>)) = accepts h"
      unfolding w' using Some by (rule accepts_upd)
    have ih: "fst (sendToUser_loop (h(c \<mapsto> st\<lparr>ws := w'\<rparr>)) cs d m) =
              m + length (filter (accepts h) cs)" for m
      using Cons.IH [of "h(c \<mapsto> st\<lparr>ws := w'\<rparr>)" m] by (simp only: acc)
    have step: "sendToUser_loop h (c # cs) d n =
                sendToUser_loop (h(c \<mapsto> st\<lparr>ws := w'\<rparr>)) cs d (if ok then n + 1 else n)"
      using Some sc by simp
    show ?thesis
      unfolding step ih using ok by simp
  qed
qed

lemma loop_frame:
  "c \<notin> set cs \<Longrightarrow> snd (sendToUser_loop h cs d n) c = h c"
  by (induction cs arbitrary: h n) (auto split: option.splits prod.splits)

lemma loop_frames_of:
  "distinct cs \<Longrightarrow> c \<in> set cs \<Longrightarrow>
   frames_of (snd (sendToUser_loop h cs d n)) c =
     (if accepts h c then frames_of h c @ [d] else frames_of h c)"
proof (induction cs arbitrary: h n)
  case Nil
  then show ?case by simp
next
  case (Cons x cs)
  show ?case
  proof (cases "h x")
    case None
    show ?thesis
    proof (cases "c = x")
      case True
      then have "c \<notin> set cs" using Cons.prems by simp
      then show ?thesis using None True loop_frame [of c cs h d n]
        by (simp add: frames_of_def accepts_def)
    next
      case False
      then show ?thesis using None Cons by simp
    qed
  next
    case (Some st)
    obtain ok w' where sc: "sendToClient (ws st) d = (ok, w')" by (cases "sendToClient (ws st) d")
    have w': "w' = snd (sendToClient (ws st) d)" using sc by simp
    let ?h = "h(x \<mapsto> st\<lparr>ws := w'\<rparr>)"
    have acc: "accepts ?h = accepts h"
      unfolding w' using Some by (rule accepts_upd)
    have step: "sendToUser_loop h (x # cs) d n =
                sendToUser_loop ?h cs d (if ok then n + 1 else n)"
      using Some sc by simp
    show ?thesis
    proof (cases "c = x")
      case True
      then have "c \<notin> set cs" using Cons.prems by simp
      then have "snd (sendToUser_loop ?h cs d (if ok then n + 1 else n)) c = ?h c"
        by (rule loop_frame)
      then show ?thesis using True Some step w' sendToClient_sent [of "ws st" d]
        by (simp add: frames_of_def accepts_def)
    next
      case False
      then have "c \<in> set cs" "distinct cs" using Cons.prems by simp_all
      then have "frames_of (snd (sendToUser_loop ?h cs d (if ok then n + 1 else n))) c =
                 (if accepts ?h c then frames_of ?h c @ [d] else frames_of ?h c)"
        using Cons.IH by blast
      then show ?thesis using False step acc by (simp add: frames_of_def)
    qed
  qed
qed


lemma sendToUser_count:
  "userConnections s u = Some conns \<Longrightarrow>
   fst (sendToUser s u d) = length (filter (accepts (clients s)) conns)"
  by (cases "sendToUser_loop (clients s) conns d 0")
     (use loop_count [of "clients s" conns d 0] in \<open>auto simp: sendToUser_def\<close>)

lemma sendToUser_frames:
  "userConnections s u = Some conns \<Longrightarrow> distinct conns \<Longrightarrow> c \<in> set conns \<Longrightarrow>
   frames_of (clients (snd (sendToUser s u d))) c =
     (if accepts (clients s) c then frames_of (clients s) c @ [d] else frames_of (clients s) c)"
  by (cases "sendToUser_loop (clients s) conns d 0")
     (use loop_frames_of [of conns c "clients s" d 0] in \<open>auto simp: sendToUser_def\<close>)

text \<open>
  C1. The fan-out send returns 0 (and changes nothing) for a user without a bucket; for
  a user with connections it returns the number of connections that accept the write,
  and every connection of the Set that accepts the write has the frame appended to its
  socket whatever happens to the others: a write that raises is caught in
  \<open>sendToClient\<close> and only leaves the count as it is. With connections \<open>a\<close>, \<open>b\<close>
  where the write to \<open>a\<close> fails and the write to \<open>b\<close> succeeds the result is 1. Both
  functions are total: the only operation that raises is the socket write, and its
  exception is a value consumed inside \<open>sendToClient\<close>.
\<close>

theorem fanout_counts_accepted_writes:
  "(userConnections s u = None \<longrightarrow> sendToUser s u d = (0, s) \<and> mq_sendToUser s u d = (0, s)) \<and>
   (\<forall>conns. userConnections s u = Some conns \<longrightarrow>
      fst (sendToUser s u d) = length (filter (accepts (clients s)) conns) \<and>
      fst (mq_sendToUser s u d) = length (filter (accepts (clients s)) conns) \<and>
      (distinct conns \<longrightarrow>
         (\<forall>c \<in> set conns.
            frames_of (clients (snd (sendToUser s u d))) c =
              (if accepts (clients s) c then frames_of (clients s) c @ [d]
               else frames_of (clients s) c) \<and>
            frames_of (clients (snd (mq_sendToUser s u d))) c =
              (if accepts (clients s) c then frames_of (clients s) c @ [d]
               else frames_of (clients s) c)))) \<and>
   (\<forall>a b. userConnections s u = Some [a, b] \<and> a \<noteq> b \<and>
          \<not> accepts (clients s) a \<and> accepts (clients s) b \<longrightarrow>
      fst (sendToUser s u d) = 1 \<and> fst (mq_sendToUser s u d) = 1 \<and>
      frames_of (clients (snd (sendToUser s u d))) b = frames_of (clients s) b @ [d] \<and>
      frames_of (clients (snd (mq_sendToUser s u d))) b = frames_of (clients s) b @ [d])"
proof (intro conjI allI impI ballI)
  assume "userConnections s u = None"
  then show "sendToUser s u d = (0, s)" by (simp add: sendToUser_def)
  then show "mq_sendToUser s u d = (0, s)" by (simp add: mq_sendToUser_eq)
next
  fix conns assume "userConnections s u = Some conns"
  then show "fst (sendToUser s u d) = length (filter (accepts (clients s)) conns)"
    by (rule sendToUser_count)
  then show "fst (mq_sendToUser s u d) = length (filter (accepts (clients s)) conns)"
    by (simp add: mq_sendToUser_eq)
next
  fix conns c
  assume "userConnections s u = Some conns" "distinct conns" "c \<in> set conns"
  then show "frames_of (clients (snd (sendToUser s u d))) c =
              (if accepts (clients s) c then frames_of (clients s) c @ [d]
               else frames_of (clients s) c)"
    by (rule sendToUser_frames)
  then show "frames_of (clients (snd (mq_sendToUser s u d))) c =
              (if accepts (clients s) c then frames_of (clients s) c @ [d]
               else frames_of (clients s) c)"
    by (simp add: mq_sendToUser_eq)
next
  fix a b
  assume h: "userConnections s u = Some [a, b] \<and> a \<noteq> b \<and>
          \<not> accepts (clients s) a \<and> accepts (clients s) b"
  then have uc: "userConnections s u = Some [a, b]" and d: "distinct [a, b]" by simp_all
  show "fst (sendToUser s u d) = 1"
    using sendToUser_count [OF uc, of d] h by simp
  then show "fst (mq_sendToUser s u d) = 1" by (simp add: mq_sendToUser_eq)
  show "frames_of (clients (snd (sendToUser s u d))) b = frames_of (clients s) b @ [d]"
    using sendToUser_frames [OF uc d, of b d] h by simp
  then show "frames_of (clients (snd (mq_sendToUser s u d))) b = frames_of (clients s) b @ [d]"
    by (simp add: mq_sendToUser_eq)
qed

theorem fanout_counts_accepted_writes_witness:
  "userConnections ex_server (JStr ''1'') = Some [''A'', ''B''] \<and>
   \<not> accepts (clients ex_server) ''A'' \<and> accepts (clients ex_server) ''B'' \<and>
   fst (sendToUser ex_server (JStr ''1'') (JStr ''x'')) = 1 \<and>
   fst (mq_sendToUser ex_server (JStr ''1'') (JStr ''x'')) = 1 \<and>
   frames_of (clients (snd (sendToUser ex_server (JStr ''1'') (JStr ''x'')))) ''B'' = [JStr ''x''] \<and>
   frames_of (clients (snd (sendToUser ex_server (JStr ''1'') (JStr ''x'')))) ''A'' = [] \<and>
   userConnections ex_server (JStr ''2'') = None \<and>
   sendToUser ex_server (JStr ''2'') (JStr ''x'') = (0, ex_server)"
  using fanout_counts_accepted_writes [of ex_server "JStr ''1''" "JStr ''x''"]
        fanout_counts_accepted_writes [of ex_server "JStr ''2''" "JStr ''x''"]
  by (simp add: ex_server_def ex_client_def ex_socket_def accepts_def frames_of_def)

section \<open>Verification: the connection registry\<close>

lemmas server_defs = on_connection_def ws_message_def on_message_def message_body_def handleAuth_def
  reply_def sendToClient_def ws_send_def verifyToken_def ex_verify_def ex_env_def empty_server_def
  auth_frame_def ex_socket_def set_add_def welcome_frame_def auth_success_def auth_failure_def
  in_bucket_def ws_close_def on_close_def set_delete_def

lemmas mq_server_defs = mq_on_connection_def mq_ws_message_def mq_handleMessage_def mq_handleAuth_def
  mq_reply_def mq_sendToClient_def ws_send_def verifyToken_def ex_verify_def ex_env_def empty_server_def
  auth_frame_def ex_socket_def set_add_def welcome_frame_def auth_success_def auth_failure_def
  in_bucket_def mq_ws_close_def on_close_def set_delete_def js_or_def

text \<open>
  C2. The claim is that no connection id is ever in the buckets of two users. Both
  servers add the connection to the bucket of the new user on every successful
  authentication and never take it out of the bucket of the user it had before: after
  the run \<open>reauth\<close> the connection \<open>c\<close> is in the buckets of user \<open>1\<close> and of user \<open>2\<close>,
  in the direct and in the queued server, and closing the connection (which clears only
  the bucket of the current user) leaves it in the bucket of user \<open>1\<close> for good.
\<close>

theorem reauth_in_two_buckets:
  "in_bucket reauth (JStr ''1'') ''c'' \<and> in_bucket reauth (JStr ''2'') ''c'' \<and>
   in_bucket mq_reauth (JStr ''1'') ''c'' \<and> in_bucket mq_reauth (JStr ''2'') ''c'' \<and>
   in_bucket (ws_close reauth ''c'') (JStr ''1'') ''c'' \<and>
   in_bucket (mq_ws_close mq_reauth ''c'') (JStr ''1'') ''c''"
  by (simp add: reauth_def mq_reauth_def server_defs mq_server_defs Let_def)

section \<open>Verification: the request correlator\<close>


lemma handle_error_entry:
  assumes "getprop data ''requestId'' = rid" "truthy rid"
      and "requestCallbacks c rid = Some ent"
  shows "handle_error c data =
     (case onError ent of
        None \<Rightarrow> (c, Returns)
      | Some f \<Rightarrow>
          (case f data of
             Throws \<Rightarrow> (c\<lparr>calls := calls c @ [(''onError'', data)]\<rparr>, Throws)
           | Returns \<Rightarrow>
               (c\<lparr>calls := calls c @ [(''onError'', data)],
                  requestCallbacks := (if once ent then (requestCallbacks c)(rid := None)
                                       else requestCallbacks c)\<rparr>, Returns)))"
  using assms
  by (auto simp: handle_error_def invoke_def Let_def split: option.splits outcome.splits)


lemma dispatch_error:
  "read_prop data ''type'' = Inr (JStr ''error'') \<Longrightarrow> dispatch t c data = handle_error c data"
  by (simp add: dispatch_def)


lemmas client_defs = ex_wsclient_def requestData_def handleMessage_def handleOpen_def WSClient_def
  connect_def ex_given_def ex_socket_def auth_success_def dispatch_def invoke_def send_def ws_send_def
  number_or_def callback_or_noop_def js_or_def authenticate_def handle_data_def handle_error_def
  ex_data_def ex_payload_def ex_error_def request_error_def returning_def




text \<open>
  C4, as amended. An error frame for a request id whose entry has an \<open>onError\<close>
  callback calls it with the frame; when the callback returns, the entry is removed if
  it is one-shot and kept if it is not: the removal is under \<^verbatim>\<open>if (callback.once)\<close>, as
  it is for data.
\<close>

theorem onError_removes_one_shot_entry:
  "read_prop data ''type'' = Inr (JStr ''error'') \<and>
   getprop data ''requestId'' = rid \<and> truthy rid \<and>
   requestCallbacks c rid = Some ent \<and> onError ent = Some f \<and> f data = Returns \<longrightarrow>
     requestCallbacks (handleMessage t c (Some data)) rid = (if once ent then None else Some ent) \<and>
     calls (handleMessage t c (Some data)) = calls c @ [(''onError'', data), (''onMessage'', data)]"
proof (intro conjI impI)
  assume a: "read_prop data ''type'' = Inr (JStr ''error'') \<and>
   getprop data ''requestId'' = rid \<and> truthy rid \<and>
   requestCallbacks c rid = Some ent \<and> onError ent = Some f \<and> f data = Returns"
  then have d: "dispatch t c data =
      (c\<lparr>calls := calls c @ [(''onError'', data)],
         requestCallbacks := (if once ent then (requestCallbacks c)(rid := None)
                              else requestCallbacks c)\<rparr>, Returns)"
    using handle_error_entry [of data rid c ent] by (simp add: dispatch_error)
  show "requestCallbacks (handleMessage t c (Some data)) rid = (if once ent then None else Some ent)"
    using a by (simp add: handleMessage_def d invoke_def)
  show "calls (handleMessage t c (Some data)) = calls c @ [(''onError'', data), (''onMessage'', data)]"
    by (simp add: handleMessage_def d invoke_def)
qed

theorem onError_removes_one_shot_entry_witness:
  "requestCallbacks
     (handleMessage 0 (ex_wsclient \<lparr>onAccepted = None, onData = None, onError = Some returning, once = True\<rparr>)
        (Some ex_error)) (JStr ''req-1'') = None \<and>
   calls
     (handleMessage 0 (ex_wsclient \<lparr>onAccepted = None, onData = None, onError = Some returning, once = True\<rparr>)
        (Some ex_error)) =
     calls (ex_wsclient \<lparr>onAccepted = None, onData = None, onError = Some returning, once = True\<rparr>)
       @ [(''onError'', ex_error), (''onMessage'', ex_error)]"
  using onError_removes_one_shot_entry
          [of ex_error "JStr ''req-1''"
              "ex_wsclient \<lparr>onAccepted = None, onData = None, onError = Some returning, once = True\<rparr>"
              "\<lparr>onAccepted = None, onData = None, onError = Some returning, once = True\<rparr>"
              returning 0]
  by (simp add: client_defs Let_def)

text \<open>
  C4 as stated fails for an entry that is not one-shot: its \<open>onError\<close> callback is
  called, and the entry is still there afterwards.
\<close>

theorem onError_keeps_entry_counterexample:
  "\<not> once \<lparr>onAccepted = None, onData = None, onError = Some returning, once = False\<rparr> \<and>
   requestCallbacks
     (handleMessage 0 (ex_wsclient \<lparr>onAccepted = None, onData = None, onError = Some returning, once = False\<rparr>)
        (Some ex_error)) (JStr ''req-1'') =
     Some \<lparr>onAccepted = None, onData = None, onError = Some returning, once = False\<rparr> \<and>
   calls
     (handleMessage 0 (ex_wsclient \<lparr>onAccepted = None, onData = None, onError = Some returning, once = False\<rparr>)
        (Some ex_error)) =
     [(''onConnect'', JUndefined), (''onAuthSuccess'', auth_success (JStr ''1'')), (''onMessage'', auth_success (JStr ''1'')),
      (''onError'', ex_error), (''onMessage'', ex_error)]"
  by (simp add: client_defs Let_def)

section \<open>Verification: heartbeat and frames\<close>

lemma mq_reply_eq: "mq_reply st d = reply st d"
  by (simp add: mq_reply_def reply_def mq_sendToClient_eq)

lemma reply_fields:
  "lastHeartbeat (reply st d) = lastHeartbeat st"
  "userId (reply st d) = userId st"
  "authenticated (reply st d) = authenticated st"
  "clientId (reply st d) = clientId st"
  "readyState (ws (reply st d)) = readyState (ws st)"
  "terminated (ws (reply st d)) = terminated (ws st)"
  "sendThrows (ws (reply st d)) = sendThrows (ws st)"
  by (simp_all add: reply_def sendToClient_flags)

lemma reply_sent:
  "sent (ws (reply st d)) =
     (if readyState (ws st) = OPEN \<and> \<not> sendThrows (ws st) then sent (ws st) @ [d] else sent (ws st))"
  by (simp add: reply_def sendToClient_sent)



lemma handleAuth_lastHeartbeat:
  "lastHeartbeat (fst (handleAuth e st uc m)) = lastHeartbeat st"
  by (simp add: handleAuth_def Let_def reply_fields)

lemma mq_handleAuth_lastHeartbeat:
  "lastHeartbeat (fst (mq_handleAuth e st uc m)) = lastHeartbeat st"
  by (simp add: mq_handleAuth_def Let_def mq_reply_eq reply_fields)

lemma handleDataRequest_lastHeartbeat:
  "lastHeartbeat (fst (handleDataRequest e st ts m)) = lastHeartbeat st"
  by (simp add: handleDataRequest_def Let_def reply_fields)

lemma mq_handleDataRequest_lastHeartbeat:
  "lastHeartbeat (fst (mq_handleDataRequest e st ts m)) = lastHeartbeat st"
  by (simp add: mq_handleDataRequest_def Let_def mq_reply_eq reply_fields)

lemma on_message_parsed_lastHeartbeat:
  "lastHeartbeat (fst (on_message e (st, uc, ts) (Some m))) = now e"
proof (cases "read_prop m ''type''")
  case (Inl x)
  then show ?thesis by (simp add: on_message_def message_body_def reply_fields)
next
  case (Inr ty)
  have a: "lastHeartbeat (fst (handleAuth e (st\<lparr>lastHeartbeat := now e\<rparr>) uc m)) = now e"
    by (simp add: handleAuth_lastHeartbeat)
  have r: "lastHeartbeat (fst (handleDataRequest e (st\<lparr>lastHeartbeat := now e\<rparr>) ts m)) = now e"
    by (simp add: handleDataRequest_lastHeartbeat)
  show ?thesis
    using Inr a r
    by (auto simp: on_message_def message_body_def reply_fields Let_def split: prod.splits)
qed

lemma mq_handleMessage_parsed_lastHeartbeat:
  "lastHeartbeat (fst (fst (mq_handleMessage e (st, uc, ts) (Some m)))) = now e"
proof (cases "read_prop m ''type''")
  case (Inl x)
  then show ?thesis by (simp add: mq_handleMessage_def)
next
  case (Inr ty)
  have a: "lastHeartbeat (fst (mq_handleAuth e (st\<lparr>lastHeartbeat := now e\<rparr>) uc m)) = now e"
    by (simp add: mq_handleAuth_lastHeartbeat)
  have r: "lastHeartbeat (fst (mq_handleDataRequest e (st\<lparr>lastHeartbeat := now e\<rparr>) ts m)) = now e"
    by (simp add: mq_handleDataRequest_lastHeartbeat)
  show ?thesis
    using Inr a r
    by (auto simp: mq_handleMessage_def mq_handlePing_def mq_reply_eq reply_fields Let_def split: prod.splits)
qed

text \<open>
  C6, as amended. Every frame that parses as JSON sets \<open>lastHeartbeat\<close> to the current
  time, whatever its type and whatever the handler does with it afterwards (also a
  frame of an unknown type, and \<^verbatim>\<open>null\<close>, on which the read of the type raises). A frame
  that is not JSON leaves \<open>lastHeartbeat\<close> as it was: both servers set it after
  \<^verbatim>\<open>JSON.parse\<close> has returned.
\<close>

theorem parsed_frame_refreshes_lastHeartbeat:
  "lastHeartbeat (fst (on_message e (st, uc, ts) (Some m))) = now e \<and>
   lastHeartbeat (fst (fst (mq_handleMessage e (st, uc, ts) (Some m)))) = now e \<and>
   lastHeartbeat (fst (on_message e (st, uc, ts) None)) = lastHeartbeat st \<and>
   lastHeartbeat (fst (fst (mq_handleMessage e (st, uc, ts) None))) = lastHeartbeat st"
  by (simp add: on_message_parsed_lastHeartbeat mq_handleMessage_parsed_lastHeartbeat)
     (simp add: on_message_def message_body_def mq_handleMessage_def mq_reply_eq reply_fields)

text \<open>
  C6 as stated fails for a malformed frame: received at time 45000 on a connection whose
  \<open>lastHeartbeat\<close> is 0, it leaves the 0 in both servers.
\<close>

theorem malformed_frame_keeps_lastHeartbeat_counterexample:
  "lastHeartbeat (fst (on_message (at_time 45000) (ex_fresh, Map.empty, []) None)) = 0 \<and>
   lastHeartbeat (fst (fst (mq_handleMessage (at_time 45000) (ex_fresh, Map.empty, []) None))) = 0 \<and>
   now (at_time 45000) = 45000"
  by (simp add: on_message_def message_body_def mq_handleMessage_def mq_reply_eq reply_fields
        ex_fresh_def at_time_def)

text \<open>
  C7, as amended. A frame that is not JSON is answered with an error frame by both
  servers. A frame of a type the server does not know is answered with an error frame
  by the direct server (as is \<^verbatim>\<open>null\<close>, on which the read of the type raises); the queued
  server only logs it and sends nothing. In every case the registry and the tasks are
  as before and the connection stays open: a reply changes nothing of the connection
  but the frames written to its socket, where the frame is appended when the socket is
  open and takes the write.
\<close>

theorem protocol_error_replies:
  "on_message e (st, uc, ts) None = (reply st (error_frame ''malformed message''), uc, ts) \<and>
   mq_handleMessage e (st, uc, ts) None =
     ((reply st (error_frame ''Invalid JSON message''), uc, ts), None) \<and>
   (read_prop m ''type'' = Inr ty \<and> ty \<noteq> JStr ''auth'' \<and> ty \<noteq> JStr ''pong'' \<and>
    ty \<noteq> JStr ''request_data'' \<longrightarrow>
      on_message e (st, uc, ts) (Some m) =
        (reply (st\<lparr>lastHeartbeat := now e\<rparr>) (error_frame ''unknown message type''), uc, ts)) \<and>
   (read_prop m ''type'' = Inr ty \<and> ty \<noteq> JStr ''auth'' \<and> ty \<noteq> JStr ''ping'' \<and>
    ty \<noteq> JStr ''request_data'' \<longrightarrow>
      mq_handleMessage e (st, uc, ts) (Some m) = ((st\<lparr>lastHeartbeat := now e\<rparr>, uc, ts), None)) \<and>
   (read_prop m ''type'' = Inl x \<longrightarrow>
      on_message e (st, uc, ts) (Some m) =
        (reply (st\<lparr>lastHeartbeat := now e\<rparr>) (error_frame ''malformed message''), uc, ts)) \<and>
   readyState (ws (reply st d)) = readyState (ws st) \<and>
   terminated (ws (reply st d)) = terminated (ws st) \<and>
   userId (reply st d) = userId st \<and>
   authenticated (reply st d) = authenticated st \<and>
   sent (ws (reply st d)) =
     (if readyState (ws st) = OPEN \<and> \<not> sendThrows (ws st) then sent (ws st) @ [d] else sent (ws st))"
  by (simp add: on_message_def message_body_def mq_handleMessage_def mq_reply_eq reply_fields
        reply_sent Let_def)

theorem protocol_error_replies_witness:
  "on_message ex_env (ex_fresh, Map.empty, []) (Some (JObj [(''type'', JStr ''foo'')])) =
     (ex_fresh\<lparr>lastHeartbeat := 1000,
               ws := (ws ex_fresh)\<lparr>sent := [error_frame ''unknown message type'']\<rparr>\<rparr>, Map.empty, []) \<and>
   mq_handleMessage ex_env (ex_fresh, Map.empty, []) (Some (JObj [(''type'', JStr ''foo'')])) =
     ((ex_fresh\<lparr>lastHeartbeat := 1000\<rparr>, Map.empty, []), None)"
  using protocol_error_replies
          [of ex_env ex_fresh Map.empty "[]" "JObj [(''type'', JStr ''foo'')]" "JStr ''foo''"
              TypeError "error_frame ''unknown message type''"]
  by (simp add: ex_env_def ex_fresh_def ex_socket_def reply_def sendToClient_def ws_send_def)

text \<open>
  C7 as stated fails in the queued server for a frame of unknown type: nothing is written
  to the open socket.
\<close>

theorem mq_unknown_type_no_reply_counterexample:
  "sent (ws (fst (fst (mq_handleMessage ex_env (ex_fresh, Map.empty, [])
                         (Some (JObj [(''type'', JStr ''foo'')])))))) = [] \<and>
   readyState (ws ex_fresh) = OPEN \<and> \<not> sendThrows (ws ex_fresh)"
  by (simp add: mq_handleMessage_def ex_fresh_def ex_socket_def)



section \<open>Verification: reconnect backoff\<close>

lemma backoff_step:
  fixes b :: rat
  assumes "0 < b"
  shows "min 30000 (b * (3 / 2) ^ n) \<le> min 30000 (b * (3 / 2) ^ Suc n)"
    and "min 30000 (b * (3 / 2) ^ n) < 30000 \<Longrightarrow>
         min 30000 (b * (3 / 2) ^ n) < min 30000 (b * (3 / 2) ^ Suc n)"
proof -
  have p: "0 < b * (3 / 2) ^ n" using assms by simp
  have s: "b * (3 / 2) ^ Suc n = (b * (3 / 2) ^ n) * (3 / 2)" by simp
  have lt: "b * (3 / 2) ^ n < b * (3 / 2) ^ Suc n" unfolding s using p by simp
  show "min 30000 (b * (3 / 2) ^ n) \<le> min 30000 (b * (3 / 2) ^ Suc n)"
    using lt by (simp add: min_def)
  show "min 30000 (b * (3 / 2) ^ n) < 30000 \<Longrightarrow>
         min 30000 (b * (3 / 2) ^ n) < min 30000 (b * (3 / 2) ^ Suc n)"
    using lt by (simp add: min_def split: if_splits)
qed

lemma backoff_mono:
  fixes b :: rat
  assumes "0 < b" "m \<le> n"
  shows "min 30000 (b * (3 / 2) ^ m) \<le> min 30000 (b * (3 / 2) ^ n)"
  using assms(2)
proof (induction n)
  case 0
  then show ?case by simp
next
  case (Suc n)
  show ?case
  proof (cases "m = Suc n")
    case True
    then show ?thesis by simp
  next
    case False
    then have "m \<le> n" using Suc.prems by simp
    then have "min 30000 (b * (3 / 2) ^ m) \<le> min 30000 (b * (3 / 2) ^ n)" by (rule Suc.IH)
    also have "\<dots> \<le> min 30000 (b * (3 / 2) ^ Suc n)" using assms(1) by (rule backoff_step(1))
    finally show ?thesis .
  qed
qed

lemma handleOpen_attempts: "reconnectAttempts (handleOpen c) = 0"
  by (simp add: handleOpen_def Let_def invoke_def authenticate_def send_def
        split: option.splits sum.splits)

lemma reconnect_timer_attempts:
  "reconnectAttempts (reconnect_timer w c) = reconnectAttempts c + 1"
  by (simp add: reconnect_timer_def Let_def invoke_def connect_def split: outcome.splits)

lemma handleClose_delay:
  "onDisconnect (options c) JUndefined = Returns \<Longrightarrow> snd (handleClose c) = Some (reconnect_delay c)"
  by (simp add: handleClose_def invoke_def reconnect_delay_def)

text \<open>
  C8. With the default reconnect interval of 3000 ms, the delay set after \<open>n\<close> failed
  attempts is \<open>min 30000 (3000 * 1.5 ^ n)\<close>: it never exceeds 30000, never decreases
  from one attempt to the next, and strictly increases as long as it is below 30000.
  Each run of the reconnect timer adds one to the attempt counter, and the open handler
  of a successful connection sets the counter back to 0 (so the next delay is 3000
  again).
\<close>

theorem reconnect_backoff_schedule:
  "reconnectInterval (options c) = 3000 \<longrightarrow>
     reconnect_delay (c\<lparr>reconnectAttempts := n\<rparr>) = min 30000 (3000 * (3 / 2) ^ n) \<and>
     reconnect_delay (c\<lparr>reconnectAttempts := n\<rparr>) \<le> 30000 \<and>
     reconnect_delay (c\<lparr>reconnectAttempts := n\<rparr>) \<le> reconnect_delay (c\<lparr>reconnectAttempts := n + 1\<rparr>) \<and>
     (m \<le> n \<longrightarrow>
        reconnect_delay (c\<lparr>reconnectAttempts := m\<rparr>) \<le> reconnect_delay (c\<lparr>reconnectAttempts := n\<rparr>)) \<and>
     (reconnect_delay (c\<lparr>reconnectAttempts := n\<rparr>) < 30000 \<longrightarrow>
        reconnect_delay (c\<lparr>reconnectAttempts := n\<rparr>) < reconnect_delay (c\<lparr>reconnectAttempts := n + 1\<rparr>)) \<and>
     (onDisconnect (options c) JUndefined = Returns \<longrightarrow>
        snd (handleClose c) = Some (min 30000 (3000 * (3 / 2) ^ reconnectAttempts c))) \<and>
     reconnectAttempts (reconnect_timer w c) = reconnectAttempts c + 1 \<and>
     reconnectAttempts (handleOpen c) = 0 \<and>
     reconnect_delay (handleOpen c) = 3000"
proof (intro impI conjI)
  assume b: "reconnectInterval (options c) = 3000"
  have pos: "(0::rat) < 3000" by simp
  show "reconnect_delay (c\<lparr>reconnectAttempts := n\<rparr>) = min 30000 (3000 * (3 / 2) ^ n)"
    using b by (simp add: reconnect_delay_def)
  show "reconnect_delay (c\<lparr>reconnectAttempts := n\<rparr>) \<le> 30000"
    by (simp add: reconnect_delay_def)
  show "reconnect_delay (c\<lparr>reconnectAttempts := n\<rparr>) \<le> reconnect_delay (c\<lparr>reconnectAttempts := n + 1\<rparr>)"
    using backoff_step(1) [OF pos, of n] b by (simp add: reconnect_delay_def)
  show "reconnect_delay (c\<lparr>reconnectAttempts := m\<rparr>) \<le> reconnect_delay (c\<lparr>reconnectAttempts := n\<rparr>)"
    if "m \<le> n"
    using backoff_mono [OF pos that] b by (simp add: reconnect_delay_def)
  show "reconnect_delay (c\<lparr>reconnectAttempts := n\<rparr>) < reconnect_delay (c\<lparr>reconnectAttempts := n + 1\<rparr>)"
    if "reconnect_delay (c\<lparr>reconnectAttempts := n\<rparr>) < 30000"
    using backoff_step(2) [OF pos, of n] b that by (simp add: reconnect_delay_def)
  show "snd (handleClose c) = Some (min 30000 (3000 * (3 / 2) ^ reconnectAttempts c))"
    if "onDisconnect (options c) JUndefined = Returns"
    using handleClose_delay [OF that] b by (simp add: reconnect_delay_def)
  show "reconnectAttempts (reconnect_timer w c) = reconnectAttempts c + 1"
    by (rule reconnect_timer_attempts)
  show "reconnectAttempts (handleOpen c) = 0" by (rule handleOpen_attempts)
  have "reconnectInterval (options (handleOpen c)) = 3000"
    using b by (simp add: handleOpen_def Let_def invoke_def authenticate_def send_def
        split: option.splits sum.splits)
  then show "reconnect_delay (handleOpen c) = 3000"
    by (simp add: reconnect_delay_def handleOpen_attempts)
qed

theorem reconnect_backoff_schedule_witness:
  "reconnectInterval (options (WSClient (ex_socket False) ex_given)) = 3000 \<and>
   map (\<lambda>n. reconnect_delay ((WSClient (ex_socket False) ex_given)\<lparr>reconnectAttempts := n\<rparr>))
     [0, 1, 2, 3, 4, 5, 6, 7] =
     [3000, 4500, 6750, 10125, 30375 / 2, 91125 / 4, 30000, 30000] \<and>
   reconnectAttempts (handleOpen ((WSClient (ex_socket False) ex_given)\<lparr>reconnectAttempts := 7\<rparr>)) = 0"
  using reconnect_backoff_schedule [of "WSClient (ex_socket False) ex_given" 5 3 "ex_socket False"]
        reconnect_backoff_schedule
          [of "(WSClient (ex_socket False) ex_given)\<lparr>reconnectAttempts := 7\<rparr>" 6 6 "ex_socket False"]
  by (simp add: WSClient_def ex_given_def number_or_def connect_def ex_socket_def reconnect_delay_def
        callback_or_noop_def Let_def power_numeral_reduce numeral_2_eq_2 numeral_3_eq_3 eval_nat_numeral)

section \<open>Verification: result batches\<close>











end
